theory Spec2Isabelle
  imports Complex_Main
begin

section \<open>AutoSys Pro: alert cooldown, prioritisation, prediction and backup\<close>

text \<open>
  A shallow embedding of the Python sources under \<open>modulo_15/autosys-pro/src\<close>.

  Conventions of the embedding.
  \<^item> A \<open>datetime\<close> is the number of microseconds since a fixed origin.  The ISO text
    produced by \<open>isoformat()\<close> orders (as text, which is how SQLite compares it) the
    same way as the instant it denotes, so a stored timestamp is kept as the instant.
  \<^item> A Python float is a real number: the model computes without rounding error.
  \<^item> An exception is a value \<open>Exn cls msg\<close>; a function that may raise returns
    \<open>exn + 'a\<close>, with \<open>Inl\<close> for the raise.
  \<^item> The result of a call that leaves the program (a database query that is not modelled
    row by row, a trained model, a network send) is an input of the model.
  \<^item> A leading underscore of a Python name is dropped: \<open>_get_base_cooldown\<close> is
    \<open>get_base_cooldown\<close>.
\<close>

type_synonym datetime = int

datatype exn = Exn (exn_class: string) (exn_msg: string)

definition total_seconds :: "int \<Rightarrow> real" where
  "total_seconds d = real_of_int d / 1000000"


definition dict_get :: "('k \<times> 'v) list \<Rightarrow> 'k \<Rightarrow> 'v \<Rightarrow> 'v" where
  \<comment> \<open>\<open>d.get(k, default)\<close> on a dictionary literal.\<close>
  "dict_get d k dflt = (case map_of d k of Some v \<Rightarrow> v | None \<Rightarrow> dflt)"

definition lower_chr :: "char \<Rightarrow> char" where
  "lower_chr c = dict_get (zip ''ABCDEFGHIJKLMNOPQRSTUVWXYZ'' ''abcdefghijklmnopqrstuvwxyz'') c c"

definition lower :: "string \<Rightarrow> string" where
  \<comment> \<open>\<open>str.lower()\<close> on the ASCII letters; other bytes are kept.\<close>
  "lower s = map lower_chr s"

subsection \<open>Alerts\<close>

text \<open>
  An alert is a dictionary.  The keys the modelled code reads or sets are fields of a
  record; an absent key is \<open>None\<close>.  The keys \<open>mensagem\<close> and \<open>detalhes\<close>, which are only
  carried along to the channels and the table, are left out.  The value under
  \<open>timestamp\<close> is either ISO text (kept as the instant it denotes) or some other text,
  on which \<open>datetime.fromisoformat\<close> raises.
\<close>

datatype carimbo = Iso datetime | Invalido string

record alerta =
  a_tipo :: "string option"
  a_severidade :: "string option"
  a_valor :: "real option"
  a_threshold :: "real option"
  a_timestamp :: "carimbo option"
  a_id :: "string option"
  a_titulo :: "string option"
  a_hostname :: "string option"
  a_sistema :: "string option"

definition get_or :: "'a option \<Rightarrow> 'a \<Rightarrow> 'a" where
  \<comment> \<open>\<open>alerta.get(key, default)\<close>\<close>
  "get_or v dflt = (case v of Some x \<Rightarrow> x | None \<Rightarrow> dflt)"

subsection \<open>priorizacao.py: GerenciadorCooldown\<close>

record cooldown_info =
  ci_timestamp :: datetime
  ci_sucesso :: bool
  ci_severidade :: string

record gerenciador_cooldown =
  cooldowns :: "string \<rightharpoonup> cooldown_info"
  adaptive_cooldowns :: "string \<rightharpoonup> real"

definition get_base_cooldown :: "string \<Rightarrow> int" where
  "get_base_cooldown severidade =
     dict_get [(''critica'', 60), (''alta'', 300), (''media'', 1800),
               (''baixa'', 3600), (''info'', 43200)] (lower severidade) 1800"


definition registrar_envio ::
  "gerenciador_cooldown \<Rightarrow> alerta \<Rightarrow> bool \<Rightarrow> datetime \<Rightarrow> gerenciador_cooldown" where
  "registrar_envio g alerta sucesso agora =
     (let tipo = get_or (a_tipo alerta) ''desconhecido'';
          severidade = get_or (a_severidade alerta) ''media'';
          base = real_of_int (get_base_cooldown severidade);
          atual = (case adaptive_cooldowns g tipo of Some w \<Rightarrow> w | None \<Rightarrow> base)
      in g\<lparr>cooldowns := (cooldowns g)(tipo \<mapsto>
              \<lparr>ci_timestamp = agora, ci_sucesso = sucesso, ci_severidade = severidade\<rparr>),
            adaptive_cooldowns := (adaptive_cooldowns g)(tipo \<mapsto>
              (if \<not> sucesso then atual * 1.5 else max base (atual * 0.9)))\<rparr>)"

definition cooldown_atual :: "gerenciador_cooldown \<Rightarrow> string \<Rightarrow> string \<Rightarrow> real" where
  \<comment> \<open>the window \<open>should_alert\<close> applies to a type (its lines 216 to 220): the stored adaptive window, or the base window of the severity\<close>
  "cooldown_atual g tipo severidade =
     (case adaptive_cooldowns g tipo of
        Some w \<Rightarrow> w
      | None \<Rightarrow> real_of_int (get_base_cooldown severidade))"

text \<open>A run of calls, oldest first: each call is an alert, the delivery outcome and the clock.\<close>

fun registrar_envios ::
  "gerenciador_cooldown \<Rightarrow> (alerta \<times> bool \<times> datetime) list \<Rightarrow> gerenciador_cooldown" where
  "registrar_envios g [] = g"
| "registrar_envios g ((a, s, t) # cs) = registrar_envios (registrar_envio g a s t) cs"

subsection \<open>canais.py: the dispatcher's own cooldown table\<close>

definition get_cooldown_periodo :: "string \<Rightarrow> int" where
  "get_cooldown_periodo severidade =
     dict_get [(''critica'', 60), (''alta'', 300), (''media'', 1800),
               (''baixa'', 3600), (''info'', 86400)] (lower severidade) 1800"

subsection \<open>canais.py: GerenciadorAlertas\<close>


















subsection \<open>priorizacao.py: PriorizadorAlertas\<close>

text \<open>
  \<open>_calcular_frequencia\<close> counts the rows of the alerts table of the last 24 hours with
  the alert's type.  The outcome of that query is the input \<open>consulta\<close>: the count, or the
  exception the query raised.  (As written the module never imports \<open>config\<close>, so
  evaluating \<open>config.DB_PATH\<close> raises NameError: one of the outcomes \<open>Inl\<close>.)
\<close>

definition calcular_frequencia :: "exn + nat \<Rightarrow> exn + int" where
  "calcular_frequencia consulta =
     (case consulta of
        Inl e \<Rightarrow> Inl e
      | Inr tot \<Rightarrow>
          Inr (if tot > 0 then
                 (if tot > 50 then 20
                  else if tot > 20 then 15
                  else if tot > 10 then 10
                  else if tot > 5 then 5
                  else if tot > 2 then 2
                  else 0)
               else 0))"

definition calcular_impacto :: "alerta \<Rightarrow> int" where
  "calcular_impacto alerta =
     (let impacto = dict_get [(''cpu_alta'', 15), (''memoria_alta'', 15), (''disco_alto'', 20),
                              (''predicao_falha'', 25), (''backup_erro'', 10),
                              (''servico_parado'', 25)] (get_or (a_tipo alerta) '''') 5;
          impacto = (case (a_valor alerta, a_threshold alerta) of
                       (Some valor, Some threshold) \<Rightarrow>
                         (if valor > threshold * 1.5 then impacto + 10
                          else if valor > threshold * 1.2 then impacto + 5
                          else impacto)
                     | _ \<Rightarrow> impacto)
      in min 25 impacto)"

text \<open>
  \<open>_calcular_recencia\<close> reads the clock twice: \<open>agora0\<close> for the default of a missing
  timestamp, then \<open>agora\<close>.  Whatever is raised inside is swallowed by the bare
  \<open>except\<close>, and the function then returns 0.
\<close>

definition calcular_recencia :: "alerta \<Rightarrow> datetime \<Rightarrow> datetime \<Rightarrow> int" where
  "calcular_recencia alerta agora0 agora =
     (case get_or (a_timestamp alerta) (Iso agora0) of
        Invalido _ \<Rightarrow> 0
      | Iso alerta_time \<Rightarrow>
          (let diferenca_minutos = total_seconds (agora - alerta_time) / 60
           in if diferenca_minutos < 5 then 15
              else if diferenca_minutos < 15 then 10
              else if diferenca_minutos < 30 then 5
              else if diferenca_minutos < 60 then 2
              else 0))"

definition calcular_prioridade ::
  "alerta \<Rightarrow> (exn + nat) \<Rightarrow> datetime \<Rightarrow> datetime \<Rightarrow> exn + int" where
  "calcular_prioridade alerta consulta agora0 agora =
     (let score = 0;
          score = score + dict_get [(''critica'', 40), (''alta'', 30), (''media'', 20),
                                    (''baixa'', 10), (''info'', 5)]
                            (lower (get_or (a_severidade alerta) ''media'')) 20
      in case calcular_frequencia consulta of
           Inl e \<Rightarrow> Inl e
         | Inr frequencia \<Rightarrow>
             (let score = score + min 20 (frequencia * 2);
                  score = score + calcular_impacto alerta;
                  score = score + calcular_recencia alerta agora0 agora
              in Inr (min 100 score)))"

subsection \<open>config.py\<close>

record config =
  cfg_cpu_alert_threshold :: real
  cfg_memory_alert_threshold :: real
  cfg_disk_alert_threshold :: real
  cfg_enable_ml :: bool
  cfg_prediction_threshold :: real
  cfg_backup_retention_days :: int
  cfg_backup_dir :: string

subsection \<open>monitor/sistema.py: verificar_alertas\<close>

text \<open>
  The entries of a snapshot that the threshold rules read; \<open>None\<close> is a missing entry, for
  which the rules take 0.
\<close>

record snapshot =
  m_cpu_percent :: "real option"
  m_memory_percent :: "real option"
  m_disk_total_percent :: "real option"
  m_zombie :: "real option"

definition novo_alerta :: "string \<Rightarrow> string \<Rightarrow> alerta" where
  \<comment> \<open>a dictionary literal with the keys \<open>tipo\<close> and \<open>severidade\<close>\<close>
  "novo_alerta tipo severidade =
     \<lparr>a_tipo = Some tipo, a_severidade = Some severidade, a_valor = None, a_threshold = None,
      a_timestamp = None, a_id = None, a_titulo = None, a_hostname = None, a_sistema = None\<rparr>"

definition verificar_alertas :: "config \<Rightarrow> snapshot \<Rightarrow> alerta list" where
  "verificar_alertas cfg metrics =
     (let alertas = [];
          cpu_percent = get_or (m_cpu_percent metrics) 0;
          alertas = (if cpu_percent > cfg_cpu_alert_threshold cfg
                     then alertas @ [(novo_alerta ''cpu_alta'' (if cpu_percent > 90 then ''alta'' else ''media''))
                            \<lparr>a_valor := Some cpu_percent,
                             a_threshold := Some (cfg_cpu_alert_threshold cfg)\<rparr>]
                     else alertas);
          mem_percent = get_or (m_memory_percent metrics) 0;
          alertas = (if mem_percent > cfg_memory_alert_threshold cfg
                     then alertas @ [(novo_alerta ''memoria_alta'' (if mem_percent > 95 then ''alta'' else ''media''))
                            \<lparr>a_valor := Some mem_percent,
                             a_threshold := Some (cfg_memory_alert_threshold cfg)\<rparr>]
                     else alertas);
          disk_percent = get_or (m_disk_total_percent metrics) 0;
          alertas = (if disk_percent > cfg_disk_alert_threshold cfg
                     then alertas @ [(novo_alerta ''disco_alto'' (if disk_percent > 95 then ''alta'' else ''media''))
                            \<lparr>a_valor := Some disk_percent,
                             a_threshold := Some (cfg_disk_alert_threshold cfg)\<rparr>]
                     else alertas);
          zombie_count = get_or (m_zombie metrics) 0;
          alertas = (if zombie_count > 0
                     then alertas @ [(novo_alerta ''processos_zombie'' ''baixa'')
                            \<lparr>a_valor := Some zombie_count\<rparr>]
                     else alertas)
      in alertas)"

subsection \<open>monitor/preditor.py: prever_falha\<close>

record preditor_falhas =
  pf_is_trained :: bool

record predicao =
  probabilidade :: real
  nivel_risco :: string
  mensagem :: string

text \<open>
  Texts with letters outside ASCII are the bytes of their UTF-8 encoding.
\<close>

definition msg_nao_treinado :: string where
  \<comment> \<open>the text \<open>Modelo nao treinado\<close>, with a tilde on the second a\<close>
  "msg_nao_treinado = ''Modelo n'' @ [CHR 0xC3, CHR 0xA3] @ ''o treinado''"

definition msg_erro_predicao :: "string \<Rightarrow> string" where
  \<comment> \<open>the f-string \<open>Erro na predicao: {str(e)}\<close>, with a cedilla and a tilde\<close>
  "msg_erro_predicao e = ''Erro na predi'' @ [CHR 0xC3, CHR 0xA7, CHR 0xC3, CHR 0xA3] @ ''o: '' @ e"

text \<open>
  \<open>inferencia\<close> is the outcome of lines 199 to 225 of the trained branch (the feature
  frame, the scaler and \<open>predict_proba\<close>): the probability, or the exception raised.
  The whole branch sits in a \<open>try\<close> whose handler returns the error answer.  The return
  statement at the end of the branch reads the name \<open>probabilidad\<close>, which is bound
  nowhere, so a computed probability ends in the handler as well, with the NameError.
\<close>

definition prever_falha :: "preditor_falhas \<Rightarrow> snapshot \<Rightarrow> exn + real \<Rightarrow> predicao" where
  "prever_falha pf metrics inferencia =
     (if \<not> pf_is_trained pf
      then \<lparr>probabilidade = 0.0, nivel_risco = ''desconhecido'', mensagem = msg_nao_treinado\<rparr>
      else (let e = (case inferencia of
                       Inl e \<Rightarrow> e
                     | Inr p \<Rightarrow> Exn ''NameError''
                                 (''name '' @ [CHR 0x27] @ ''probabilidad'' @ [CHR 0x27] @ '' is not defined''))
            in \<lparr>probabilidade = 0.0, nivel_risco = ''erro'',
                mensagem = msg_erro_predicao (exn_msg e)\<rparr>))"

subsection \<open>main.py: the alerts of one monitoring iteration\<close>

text \<open>
  Lines 91 to 115 of \<open>_monitoring_loop\<close>: collect the snapshot, evaluate the thresholds,
  and add the prediction alert.  \<open>coleta\<close> is the outcome of the collection (as written the
  attribute read is \<open>self.sistema_monometer\<close>, which does not exist: the outcome is the
  AttributeError, and the iteration ends in the handler of the loop).
\<close>

definition monitoring_loop_alertas ::
  "config \<Rightarrow> preditor_falhas \<Rightarrow> exn + snapshot \<Rightarrow> exn + real \<Rightarrow> datetime \<Rightarrow> exn + alerta list" where
  "monitoring_loop_alertas cfg pf coleta inferencia agora =
     (case coleta of
        Inl e \<Rightarrow> Inl e
      | Inr metrics \<Rightarrow>
          (let alertas = verificar_alertas cfg metrics
           in if cfg_enable_ml cfg
              then (let predicao = prever_falha pf metrics inferencia
                    in if probabilidade predicao > cfg_prediction_threshold cfg
                       then Inr (alertas @ [(novo_alerta ''predicao_falha'' ''alta'')
                                              \<lparr>a_timestamp := Some (Iso agora)\<rparr>])
                       else Inr alertas)
              else Inr alertas))"

subsection \<open>The backups table\<close>

text \<open>
  A row of the table \<open>backups\<close>; \<open>None\<close> is SQL NULL.  The primary key \<open>id\<close> is the text of
  the clock at second resolution.
\<close>

record backup_row =
  b_id :: string
  b_timestamp :: datetime
  b_path :: "string option"
  b_tamanho_mb :: "real option"
  b_duracao :: "real option"
  b_tipo :: "string option"
  b_targets :: "string list"
  b_sucesso :: bool
  b_erro :: "string option"

fun mais_recente :: "backup_row list \<Rightarrow> backup_row option" where
  \<comment> \<open>\<open>ORDER BY timestamp DESC LIMIT 1\<close>; among equal timestamps the first row of the table\<close>
  "mais_recente [] = None"
| "mais_recente (r # rs) =
     (case mais_recente rs of
        None \<Rightarrow> Some r
      | Some r' \<Rightarrow> if b_timestamp r' > b_timestamp r then Some r' else Some r)"

definition get_ultimo_backup_sucesso :: "backup_row list \<Rightarrow> backup_row option" where
  "get_ultimo_backup_sucesso tabela = mais_recente (filter b_sucesso tabela)"

definition get_ultimo_backup_completo :: "backup_row list \<Rightarrow> backup_row option" where
  "get_ultimo_backup_completo tabela =
     mais_recente (filter (\<lambda>r. b_sucesso r \<and> b_tipo r = Some ''completo'') tabela)"

subsection \<open>backup/inteligencia.py: sugerir_estrategia\<close>

record estrategia =
  e_tipo :: "string option"
  e_compressao :: "bool option"
  e_prioridade :: "string option"
  e_tamanho_estimado_mb :: "real option"
  e_horario_sugerido :: "string option"
  e_dias_desde_ultimo_backup :: "real option"
  e_confianca :: "real option"

record otimizador_backup =
  ob_is_trained :: bool

text \<open>
  What one call takes from outside: the clock (its hour, its weekday with Monday as 0,
  and the instant), the outcome of the cluster model's \<open>predict\<close>, the outcome of the
  size model's \<open>predict\<close>, and the row of the hour query of \<open>_sugerir_horario_ideal\<close>
  (the hour with the least average duration, if the table has a successful row).
\<close>

record ambiente_estrategia =
  ae_hora_atual :: nat
  ae_dia_semana :: nat
  ae_agora :: datetime
  ae_cluster :: "exn + int"
  ae_tamanho :: "exn + real"
  ae_hora_ideal :: "nat option"

definition py_round :: "real \<Rightarrow> nat \<Rightarrow> real" where
  \<comment> \<open>\<open>round(x, n)\<close>: to n decimals, a tie to the even neighbour\<close>
  "py_round x n =
     (let y = x * 10 ^ n; f = \<lfloor>y\<rfloor>; d = y - real_of_int f;
          r = (if d < 1 / 2 then f else if d > 1 / 2 then f + 1
               else if even f then f else f + 1)
      in real_of_int r / 10 ^ n)"

definition fmt_02d :: "nat \<Rightarrow> string" where
  \<comment> \<open>the format \<open>02d\<close> of a number below 100\<close>
  "fmt_02d n = [''0123456789'' ! (n div 10 mod 10), ''0123456789'' ! (n mod 10)]"

definition estimar_tamanho_backup ::
  "otimizador_backup \<Rightarrow> ambiente_estrategia \<Rightarrow> string \<Rightarrow> real \<Rightarrow> exn + real" where
  "estimar_tamanho_backup ob env tipo dias_desde_ultimo =
     (if \<not> ob_is_trained ob
      then (let base = (if tipo = ''completo'' then 100 else 20)
            in Inr (base * (1 + dias_desde_ultimo * 0.1)))
      else (case ae_tamanho env of
              Inl e \<Rightarrow> Inl e
            | Inr tamanho \<Rightarrow> Inr (max tamanho 1)))"

definition sugerir_horario_ideal :: "ambiente_estrategia \<Rightarrow> string" where
  "sugerir_horario_ideal env =
     (case ae_hora_ideal env of
        Some hora_ideal \<Rightarrow> fmt_02d hora_ideal @ '':00''
      | None \<Rightarrow> ''02:00'')"

definition escolher_tipo ::
  "otimizador_backup \<Rightarrow> ambiente_estrategia \<Rightarrow> real \<Rightarrow> exn + string" where
  \<comment> \<open>lines 143 to 168 of \<open>sugerir_estrategia\<close>\<close>
  "escolher_tipo ob env dias_desde_ultimo =
     (if \<not> ob_is_trained ob
      then (if dias_desde_ultimo > 7 then Inr ''completo''
            else if ae_dia_semana env = 0 then Inr ''completo''
            else Inr ''incremental'')
      else (case ae_cluster env of
              Inl e \<Rightarrow> Inl e
            | Inr cluster \<Rightarrow>
                (let tipo = dict_get [(0, ''incremental''), (1, ''completo''), (2, ''diferencial'')]
                              cluster ''incremental''
                 in if dias_desde_ultimo > 7 then Inr ''completo'' else Inr tipo)))"

definition sugerir_estrategia ::
  "otimizador_backup \<Rightarrow> ambiente_estrategia \<Rightarrow> backup_row list \<Rightarrow> exn + estrategia" where
  "sugerir_estrategia ob env tabela =
     (let ultimo = get_ultimo_backup_sucesso tabela;
          dias_desde_ultimo = (case ultimo of
                                 None \<Rightarrow> 1
                               | Some r \<Rightarrow> total_seconds (ae_agora env - b_timestamp r) / 86400)
      in case escolher_tipo ob env dias_desde_ultimo of
           Inl e \<Rightarrow> Inl e
         | Inr tipo \<Rightarrow>
             (case estimar_tamanho_backup ob env tipo dias_desde_ultimo of
                Inl e \<Rightarrow> Inl e
              | Inr tamanho_estimado \<Rightarrow>
                  (let horario_ideal = sugerir_horario_ideal env
                   in Inr \<lparr>e_tipo = Some tipo,
                           e_compressao = Some True,
                           e_prioridade = Some (if tipo = ''completo'' then ''alta'' else ''media''),
                           e_tamanho_estimado_mb = Some (py_round tamanho_estimado 2),
                           e_horario_sugerido = Some horario_ideal,
                           e_dias_desde_ultimo_backup = Some (py_round dias_desde_ultimo 1),
                           e_confianca = Some (if ob_is_trained ob then 0.85 else 0.6)\<rparr>)))"

subsection \<open>The file system\<close>

text \<open>
  The part of the file system the backup code looks at: the regular files (path, size in
  bytes, modification time) and the directories, by their absolute path.  A path exists
  when it is one of them.  \<open>rglob\<close> of a directory, restricted to regular files as the
  code does with \<open>is_file()\<close>, is the list of the files whose path lies below it.
\<close>

record sistema_arquivos =
  arquivos :: "(string \<times> nat \<times> datetime) list"
  diretorios :: "string list"

definition fs_is_file :: "sistema_arquivos \<Rightarrow> string \<Rightarrow> bool" where
  "fs_is_file fs p \<longleftrightarrow> map_of (arquivos fs) p \<noteq> None"

definition fs_is_dir :: "sistema_arquivos \<Rightarrow> string \<Rightarrow> bool" where
  "fs_is_dir fs p \<longleftrightarrow> p \<in> set (diretorios fs)"

definition fs_exists :: "sistema_arquivos \<Rightarrow> string \<Rightarrow> bool" where
  "fs_exists fs p \<longleftrightarrow> fs_is_file fs p \<or> fs_is_dir fs p"

fun prefixo :: "string \<Rightarrow> string \<Rightarrow> bool" where
  "prefixo [] ys = True"
| "prefixo (x # xs) [] = False"
| "prefixo (x # xs) (y # ys) = (x = y \<and> prefixo xs ys)"

definition abaixo_de :: "string \<Rightarrow> string \<Rightarrow> bool" where
  \<comment> \<open>the path p lies below the directory d\<close>
  "abaixo_de d p \<longleftrightarrow> prefixo (d @ ''/'') p \<and> p \<noteq> d @ ''/''"

definition rglob_files :: "sistema_arquivos \<Rightarrow> string \<Rightarrow> (string \<times> nat \<times> datetime) list" where
  "rglob_files fs d = filter (\<lambda>f. abaixo_de d (fst f)) (arquivos fs)"

definition st_size :: "sistema_arquivos \<Rightarrow> string \<Rightarrow> nat" where
  \<comment> \<open>the size of a regular file; the size of a directory entry is not modelled and counts 0\<close>
  "st_size fs p = (case map_of (arquivos fs) p of Some (n, m) \<Rightarrow> n | None \<Rightarrow> 0)"

definition basename :: "string \<Rightarrow> string" where
  \<comment> \<open>\<open>Path(p).name\<close>\<close>
  "basename p = rev (takeWhile (\<lambda>c. c \<noteq> CHR ''/'') (rev p))"

definition fs_write :: "sistema_arquivos \<Rightarrow> string \<Rightarrow> nat \<Rightarrow> datetime \<Rightarrow> sistema_arquivos" where
  "fs_write fs p n m = fs\<lparr>arquivos := (p, n, m) # filter (\<lambda>f. fst f \<noteq> p) (arquivos fs)\<rparr>"

definition fs_mkdir :: "sistema_arquivos \<Rightarrow> string \<Rightarrow> sistema_arquivos" where
  "fs_mkdir fs p = (if fs_is_dir fs p then fs else fs\<lparr>diretorios := p # diretorios fs\<rparr>)"

definition fs_copy2 :: "sistema_arquivos \<Rightarrow> string \<Rightarrow> string \<Rightarrow> sistema_arquivos" where
  \<comment> \<open>\<open>shutil.copy2\<close> of a regular file: the content and the modification time; into the directory when the destination is one\<close>
  "fs_copy2 fs src dest =
     (case map_of (arquivos fs) src of
        None \<Rightarrow> fs
      | Some (n, m) \<Rightarrow>
          fs_write fs (if fs_is_dir fs dest then dest @ ''/'' @ basename src else dest) n m)"

definition fs_copytree :: "sistema_arquivos \<Rightarrow> string \<Rightarrow> string \<Rightarrow> sistema_arquivos" where
  \<comment> \<open>\<open>shutil.copytree\<close> to a destination that does not exist yet\<close>
  "fs_copytree fs src dest =
     fs\<lparr>arquivos := map (\<lambda>(p, n, m). (dest @ drop (length src) p, n, m)) (rglob_files fs src)
                      @ arquivos fs,
        diretorios := dest # map (\<lambda>d. dest @ drop (length src) d)
                                 (filter (abaixo_de src) (diretorios fs))
                      @ diretorios fs\<rparr>"

definition fs_unlink :: "sistema_arquivos \<Rightarrow> string \<Rightarrow> sistema_arquivos" where
  "fs_unlink fs p = fs\<lparr>arquivos := filter (\<lambda>f. fst f \<noteq> p) (arquivos fs)\<rparr>"

definition fs_rmtree :: "sistema_arquivos \<Rightarrow> string \<Rightarrow> sistema_arquivos" where
  "fs_rmtree fs p =
     fs\<lparr>arquivos := filter (\<lambda>f. \<not> abaixo_de p (fst f)) (arquivos fs),
        diretorios := filter (\<lambda>d. d \<noteq> p \<and> \<not> abaixo_de p d) (diretorios fs)\<rparr>"

subsection \<open>backup/gerenciador.py: GerenciadorBackup\<close>

text \<open>
  The state the backup manager works on: the file system and the table \<open>backups\<close>.  The
  database calls are taken to succeed.

  What one call of \<open>executar_backup\<close> takes from outside: the text of the clock for the
  backup id, the later clock readings (start and end of the copy, the metadata file, the
  row of a success, the retention sweep, the row of a failure), the free bytes that
  \<open>psutil.disk_usage\<close> reports, a fault that the operating system raises when the file at
  a path is copied or unlinked, the outcome of writing the zip archive (its size in
  bytes; a failed write is taken to leave no file), and the size of the metadata file.
\<close>

record estado_backup =
  eb_fs :: sistema_arquivos
  eb_backups :: "backup_row list"

record ambiente_backup =
  ab_id :: string
  ab_t_inicio :: datetime
  ab_t_fim :: datetime
  ab_t_metadata :: datetime
  ab_t_registro :: datetime
  ab_t_limpeza :: datetime
  ab_t_falha :: datetime
  ab_espaco_livre :: nat
  ab_falha_io :: "string \<Rightarrow> exn option"
  ab_zip :: "exn + nat"
  ab_metadata_bytes :: nat

record resultado_backup =
  r_caminho_final :: string
  r_tamanho_mb :: real
  r_arquivos :: nat
  r_taxa_compressao :: "real option"

record saida_backup =
  s_id :: string
  s_sucesso :: bool
  s_tamanho_mb :: real
  s_duracao :: real
  s_caminho :: string
  s_arquivos :: nat

definition modificados_desde :: "sistema_arquivos \<Rightarrow> datetime \<Rightarrow> string list" where
  \<comment> \<open>the loop over \<open>/etc\<close> and \<open>/home\<close> of \<open>_determinar_targets\<close>\<close>
  "modificados_desde fs last_time =
     concat (map (\<lambda>path. if fs_exists fs path
                          then map fst (filter (\<lambda>(p, n, mtime). mtime > last_time) (rglob_files fs path))
                          else [])
                 [''/etc'', ''/home''])"

definition determinar_targets ::
  "estrategia \<Rightarrow> backup_row list \<Rightarrow> sistema_arquivos \<Rightarrow> string list" where
  \<comment> \<open>\<open>list(set(targets))\<close> keeps one copy of each target, in an order of its own: here the order of first occurrence\<close>
  "determinar_targets est tabela fs =
     (let tipo = get_or (e_tipo est) ''incremental'';
          targets =
            (if tipo = ''completo'' then [''/etc'', ''/home'', ''/var/www'', ''/opt'']
             else if tipo = ''incremental'' then
               (case get_ultimo_backup_sucesso tabela of
                  Some ultimo_backup \<Rightarrow> modificados_desde fs (b_timestamp ultimo_backup)
                | None \<Rightarrow> [''/etc'', ''/home''])
             else if tipo = ''diferencial'' then
               (case get_ultimo_backup_completo tabela of
                  Some ultimo_completo \<Rightarrow> modificados_desde fs (b_timestamp ultimo_completo)
                | None \<Rightarrow> [''/etc'', ''/home''])
             else [])
      in remdups targets)"

definition bytes_de :: "sistema_arquivos \<Rightarrow> string \<Rightarrow> nat" where
  \<comment> \<open>the body of the loop of \<open>_calcular_tamanho\<close>\<close>
  "bytes_de fs target =
     (if fs_exists fs target
      then (if fs_is_file fs target then st_size fs target
            else if fs_is_dir fs target then sum_list (map (\<lambda>(p, n, m). n) (rglob_files fs target))
            else 0)
      else 0)"

definition calcular_tamanho :: "string list \<Rightarrow> sistema_arquivos \<Rightarrow> real" where
  "calcular_tamanho targets fs = real (sum_list (map (bytes_de fs) targets)) / (1024 * 1024)"

definition verificar_espaco :: "ambiente_backup \<Rightarrow> real \<Rightarrow> bool" where
  "verificar_espaco env tamanho_estimado_mb =
     (let espaco_livre_mb = real (ab_espaco_livre env) / (1024 * 1024)
      in espaco_livre_mb \<ge> tamanho_estimado_mb * 2)"

text \<open>
  The loop of \<open>_executar_backup_sync\<close> over the targets, with the two counters.  After
  the copy of a directory the code calls \<open>os.walk\<close>, and the module never imports \<open>os\<close>:
  a target that is a directory ends the loop with the NameError, its copy already made.
  The strategy that \<open>_executar_backup_sync\<close> receives only goes into the text of
  \<open>metadata.json\<close>, of which the model keeps the size.
\<close>

fun copiar_targets ::
  "ambiente_backup \<Rightarrow> string \<Rightarrow> string list \<Rightarrow> sistema_arquivos \<Rightarrow> nat \<Rightarrow> nat
     \<Rightarrow> (exn + nat \<times> nat) \<times> sistema_arquivos" where
  "copiar_targets env backup_path [] fs total_arquivos total_bytes =
     (Inr (total_arquivos, total_bytes), fs)"
| "copiar_targets env backup_path (target # resto) fs total_arquivos total_bytes =
     (if \<not> fs_exists fs target
      then copiar_targets env backup_path resto fs total_arquivos total_bytes
      else (case ab_falha_io env target of
              Some e \<Rightarrow> (Inl e, fs)
            | None \<Rightarrow>
                (let dest = backup_path @ ''/'' @ basename target
                 in if fs_is_file fs target
                    then (let fs = fs_copy2 fs target dest
                          in copiar_targets env backup_path resto fs
                               (total_arquivos + 1) (total_bytes + st_size fs dest))
                    else if fs_exists fs dest
                    then (Inl (Exn ''FileExistsError'' dest), fs)
                    else (Inl (Exn ''NameError''
                                (''name '' @ [CHR 0x27] @ ''os'' @ [CHR 0x27] @ '' is not defined'')),
                          fs_copytree fs target dest))))"

definition executar_backup_sync ::
  "ambiente_backup \<Rightarrow> string \<Rightarrow> string list \<Rightarrow> sistema_arquivos
     \<Rightarrow> (exn + resultado_backup) \<times> sistema_arquivos" where
  "executar_backup_sync env backup_path targets fs =
     (if fs_is_file fs backup_path
      then (Inl (Exn ''FileExistsError'' backup_path), fs)
      else (case copiar_targets env backup_path targets (fs_mkdir fs backup_path) 0 0 of
              (Inl e, fs) \<Rightarrow> (Inl e, fs)
            | (Inr (total_arquivos, total_bytes), fs) \<Rightarrow>
                (Inr \<lparr>r_caminho_final = backup_path,
                      r_tamanho_mb = real total_bytes / (1024 * 1024),
                      r_arquivos = total_arquivos,
                      r_taxa_compressao = None\<rparr>,
                 fs_write fs (backup_path @ ''/metadata.json'')
                   (ab_metadata_bytes env) (ab_t_metadata env))))"

text \<open>
  \<open>_compactar_backup\<close> never raises: its handler returns the result it was given.  The
  division by \<open>resultado["tamanho_mb"]\<close> raises ZeroDivisionError on a backup of 0 bytes,
  after the archive is written and the directory removed.
\<close>

definition compactar_backup ::
  "ambiente_backup \<Rightarrow> string \<Rightarrow> string \<Rightarrow> resultado_backup \<Rightarrow> sistema_arquivos
     \<Rightarrow> resultado_backup \<times> sistema_arquivos" where
  "compactar_backup env backup_dir backup_path resultado fs =
     (let compactado_path = backup_dir @ ''/'' @ basename backup_path @ ''.zip''
      in case ab_zip env of
           Inl e \<Rightarrow> (resultado, fs)
         | Inr zip_bytes \<Rightarrow>
             (let fs = fs_write fs compactado_path zip_bytes (ab_t_fim env);
                  fs = fs_rmtree fs backup_path;
                  tamanho_compactado = real zip_bytes / (1024 * 1024)
              in if r_tamanho_mb resultado = 0
                 then (resultado, fs)
                 else (\<lparr>r_caminho_final = compactado_path,
                        r_tamanho_mb = tamanho_compactado,
                        r_arquivos = r_arquivos resultado,
                        r_taxa_compressao =
                          Some ((1 - tamanho_compactado / r_tamanho_mb resultado) * 100)\<rparr>,
                       fs)))"

definition registrar_backup :: "backup_row list \<Rightarrow> backup_row \<Rightarrow> backup_row list" where
  \<comment> \<open>\<open>INSERT OR REPLACE\<close>: a row with the same id is replaced\<close>
  "registrar_backup tabela linha = filter (\<lambda>r. b_id r \<noteq> b_id linha) tabela @ [linha]"

text \<open>
  The loop of \<open>_limpar_backups_antigos\<close> over the selected paths.  \<open>Path(None)\<close> raises
  TypeError, and \<open>unlink\<close> of a directory raises IsADirectoryError.
\<close>

fun remover_artefatos ::
  "ambiente_backup \<Rightarrow> string option list \<Rightarrow> sistema_arquivos \<Rightarrow> exn option \<times> sistema_arquivos" where
  "remover_artefatos env [] fs = (None, fs)"
| "remover_artefatos env (None # resto) fs = (Some (Exn ''TypeError'' ''NoneType''), fs)"
| "remover_artefatos env (Some path # resto) fs =
     (if fs_exists fs path
      then (if \<not> fs_is_file fs path then (Some (Exn ''IsADirectoryError'' path), fs)
            else (case ab_falha_io env path of
                    Some e \<Rightarrow> (Some e, fs)
                  | None \<Rightarrow> remover_artefatos env resto (fs_unlink fs path)))
      else remover_artefatos env resto fs)"

definition limpar_backups_antigos ::
  "config \<Rightarrow> ambiente_backup \<Rightarrow> datetime \<Rightarrow> estado_backup \<Rightarrow> exn option \<times> estado_backup" where
  "limpar_backups_antigos cfg env agora st =
     (let cutoff = agora - cfg_backup_retention_days cfg * 86400000000;
          backups_antigos = map b_path
            (filter (\<lambda>r. b_timestamp r < cutoff \<and> b_sucesso r) (eb_backups st))
      in case remover_artefatos env backups_antigos (eb_fs st) of
           (Some e, fs) \<Rightarrow> (Some e, st\<lparr>eb_fs := fs\<rparr>)
         | (None, fs) \<Rightarrow>
             (None, \<lparr>eb_fs = fs,
                     eb_backups = filter (\<lambda>r. \<not> b_timestamp r < cutoff) (eb_backups st)\<rparr>))"

definition msg_espaco :: string where
  \<comment> \<open>the text \<open>Espaco em disco insuficiente\<close>, with a cedilla\<close>
  "msg_espaco = ''Espa'' @ [CHR 0xC3, CHR 0xA7] @ ''o em disco insuficiente''"

definition linha_sucesso ::
  "ambiente_backup \<Rightarrow> estrategia \<Rightarrow> string list \<Rightarrow> resultado_backup \<Rightarrow> real \<Rightarrow> backup_row" where
  "linha_sucesso env est targets resultado duracao =
     \<lparr>b_id = ab_id env, b_timestamp = ab_t_registro env,
      b_path = Some (r_caminho_final resultado), b_tamanho_mb = Some (r_tamanho_mb resultado),
      b_duracao = Some duracao, b_tipo = Some (get_or (e_tipo est) ''incremental''),
      b_targets = targets, b_sucesso = True, b_erro = None\<rparr>"

definition linha_falha :: "ambiente_backup \<Rightarrow> exn \<Rightarrow> backup_row" where
  "linha_falha env e =
     \<lparr>b_id = ab_id env, b_timestamp = ab_t_falha env,
      b_path = None, b_tamanho_mb = None, b_duracao = None, b_tipo = None,
      b_targets = [], b_sucesso = False, b_erro = Some (exn_msg e)\<rparr>"

text \<open>The body of the \<open>try\<close> of \<open>executar_backup\<close>, with the state it leaves when it raises.\<close>

definition executar_backup_try ::
  "config \<Rightarrow> ambiente_backup \<Rightarrow> estrategia \<Rightarrow> estado_backup \<Rightarrow> (exn + saida_backup) \<times> estado_backup" where
  "executar_backup_try cfg env est st =
     (let backup_path = cfg_backup_dir cfg @ ''/backup_'' @ ab_id env;
          targets = determinar_targets est (eb_backups st) (eb_fs st);
          tamanho_estimado = calcular_tamanho targets (eb_fs st)
      in if \<not> verificar_espaco env tamanho_estimado
         then (Inl (Exn ''BackupError'' msg_espaco), st)
         else (case executar_backup_sync env backup_path targets (eb_fs st) of
                 (Inl e, fs) \<Rightarrow> (Inl e, st\<lparr>eb_fs := fs\<rparr>)
               | (Inr resultado, fs) \<Rightarrow>
                   (let duracao = total_seconds (ab_t_fim env - ab_t_inicio env);
                        (resultado, fs) =
                          (if get_or (e_compressao est) True
                           then compactar_backup env (cfg_backup_dir cfg) backup_path resultado fs
                           else (resultado, fs));
                        st = \<lparr>eb_fs = fs,
                              eb_backups = registrar_backup (eb_backups st)
                                             (linha_sucesso env est targets resultado duracao)\<rparr>
                    in case limpar_backups_antigos cfg env (ab_t_limpeza env) st of
                         (Some e, st) \<Rightarrow> (Inl e, st)
                       | (None, st) \<Rightarrow>
                           (Inr \<lparr>s_id = ab_id env, s_sucesso = True,
                                 s_tamanho_mb = r_tamanho_mb resultado, s_duracao = duracao,
                                 s_caminho = r_caminho_final resultado,
                                 s_arquivos = r_arquivos resultado\<rparr>, st))))"

definition executar_backup ::
  "config \<Rightarrow> ambiente_backup \<Rightarrow> estrategia \<Rightarrow> estado_backup \<Rightarrow> (exn + saida_backup) \<times> estado_backup" where
  "executar_backup cfg env est st =
     (case executar_backup_try cfg env est st of
        (Inr saida, st) \<Rightarrow> (Inr saida, st)
      | (Inl e, st) \<Rightarrow>
          (Inl (Exn ''BackupError'' (''Falha no backup: '' @ exn_msg e)),
           st\<lparr>eb_backups := registrar_backup (eb_backups st) (linha_falha env e)\<rparr>))"

section \<open>Example data\<close>

definition alerta_vazio :: alerta where
  "alerta_vazio = \<lparr>a_tipo = None, a_severidade = None, a_valor = None, a_threshold = None,
     a_timestamp = None, a_id = None, a_titulo = None, a_hostname = None, a_sistema = None\<rparr>"

definition alerta_cpu :: "string \<Rightarrow> alerta" where
  "alerta_cpu severidade =
     alerta_vazio\<lparr>a_tipo := Some ''cpu_alta'', a_severidade := Some severidade\<rparr>"

definition cooldown_vazio :: gerenciador_cooldown where
  "cooldown_vazio = \<lparr>cooldowns = Map.empty, adaptive_cooldowns = Map.empty\<rparr>"

definition config_padrao :: config where
  \<comment> \<open>the defaults of \<open>config.py\<close>\<close>
  "config_padrao = \<lparr>cfg_cpu_alert_threshold = 80, cfg_memory_alert_threshold = 85,
     cfg_disk_alert_threshold = 90, cfg_enable_ml = True, cfg_prediction_threshold = 0.7,
     cfg_backup_retention_days = 30, cfg_backup_dir = ''/data/backups''\<rparr>"

definition config_retencao_zero :: config where
  \<comment> \<open>the defaults, with \<open>BACKUP_RETENTION_DAYS: 0\<close> in the YAML file\<close>
  "config_retencao_zero = \<lparr>cfg_cpu_alert_threshold = 80, cfg_memory_alert_threshold = 85,
     cfg_disk_alert_threshold = 90, cfg_enable_ml = True, cfg_prediction_threshold = 0.7,
     cfg_backup_retention_days = 0, cfg_backup_dir = ''/data/backups''\<rparr>"



definition snapshot_ex :: snapshot where
  "snapshot_ex = \<lparr>m_cpu_percent = Some 96, m_memory_percent = Some 40,
     m_disk_total_percent = Some 50, m_zombie = None\<rparr>"

definition ambiente_estrategia_ex :: ambiente_estrategia where
  \<comment> \<open>a Tuesday at 14 h, eight days after instant 0\<close>
  "ambiente_estrategia_ex = \<lparr>ae_hora_atual = 14, ae_dia_semana = 1, ae_agora = 8 * 86400000000,
     ae_cluster = Inr 0, ae_tamanho = Inr 50, ae_hora_ideal = None\<rparr>"

definition linha_antiga :: backup_row where
  "linha_antiga = \<lparr>b_id = ''20240101_020000'', b_timestamp = 0,
     b_path = Some ''/data/backups/backup_20240101_020000.zip'', b_tamanho_mb = Some 1,
     b_duracao = Some 2, b_tipo = Some ''completo'', b_targets = [''/etc''],
     b_sucesso = True, b_erro = None\<rparr>"

definition linha_antiga_falha :: backup_row where
  "linha_antiga_falha = \<lparr>b_id = ''20240101_030000'', b_timestamp = 3600000000,
     b_path = None, b_tamanho_mb = None, b_duracao = None, b_tipo = None, b_targets = [],
     b_sucesso = False, b_erro = Some ''disk''\<rparr>"

definition linha_recente :: backup_row where
  "linha_recente = \<lparr>b_id = ''20240210_020000'', b_timestamp = 40 * 86400000000,
     b_path = Some ''/data/backups/backup_20240210_020000.zip'', b_tamanho_mb = Some 1,
     b_duracao = Some 2, b_tipo = Some ''incremental'', b_targets = [''/etc/passwd''],
     b_sucesso = True, b_erro = None\<rparr>"

definition estado_retencao :: estado_backup where
  "estado_retencao =
     \<lparr>eb_fs = \<lparr>arquivos = [(''/data/backups/backup_20240101_020000.zip'', 1048576, 0),
                            (''/data/backups/backup_20240210_020000.zip'', 1048576, 40 * 86400000000)],
               diretorios = [''/data/backups'']\<rparr>,
      eb_backups = [linha_antiga, linha_antiga_falha, linha_recente]\<rparr>"

definition ambiente_backup_ex :: ambiente_backup where
  "ambiente_backup_ex = \<lparr>ab_id = ''20240215_020000'', ab_t_inicio = 1, ab_t_fim = 2000001,
     ab_t_metadata = 2000000, ab_t_registro = 2000005, ab_t_limpeza = 2000006, ab_t_falha = 2000007,
     ab_espaco_livre = 1048576, ab_falha_io = (\<lambda>_. None), ab_zip = Inr 100,
     ab_metadata_bytes = 10\<rparr>"

definition estrategia_incremental :: estrategia where
  \<comment> \<open>the strategy of \<open>_backup_loop\<close> when ML is disabled\<close>
  "estrategia_incremental = \<lparr>e_tipo = Some ''incremental'', e_compressao = None,
     e_prioridade = Some ''media'', e_tamanho_estimado_mb = None, e_horario_sugerido = None,
     e_dias_desde_ultimo_backup = None, e_confianca = None\<rparr>"

definition estado_vazio :: estado_backup where
  "estado_vazio = \<lparr>eb_fs = \<lparr>arquivos = [], diretorios = [''/data/backups'']\<rparr>, eb_backups = []\<rparr>"

definition estado_etc :: estado_backup where
  \<comment> \<open>one file of 1 MB below \<open>/etc\<close>, no backup yet\<close>
  "estado_etc = \<lparr>eb_fs = \<lparr>arquivos = [(''/etc/passwd'', 1048576, 0)],
                           diretorios = [''/etc'', ''/data/backups'']\<rparr>, eb_backups = []\<rparr>"

definition linha_registrada :: backup_row where
  "linha_registrada = \<lparr>b_id = ''20240215_020000'', b_timestamp = 2000005,
     b_path = Some ''/data/backups/backup_20240215_020000'', b_tamanho_mb = Some 0,
     b_duracao = Some 2, b_tipo = Some ''incremental'', b_targets = [''/etc'', ''/home''],
     b_sucesso = True, b_erro = None\<rparr>"

definition saida_ex :: saida_backup where
  "saida_ex = \<lparr>s_id = ''20240215_020000'', s_sucesso = True, s_tamanho_mb = 0, s_duracao = 2,
     s_caminho = ''/data/backups/backup_20240215_020000'', s_arquivos = 0\<rparr>"

definition fs_depois :: sistema_arquivos where
  "fs_depois = \<lparr>arquivos = [(''/data/backups/backup_20240215_020000.zip'', 100, 2000001)],
     diretorios = [''/data/backups'']\<rparr>"

section \<open>Properties\<close>

subsection \<open>Helper facts\<close>

lemma dict_get_range:
  assumes "\<forall>(k, v) \<in> set d. lo \<le> v \<and> v \<le> hi" and "lo \<le> dflt" and "dflt \<le> hi"
  shows "lo \<le> dict_get d k dflt \<and> dict_get d k dflt \<le> (hi::int)"
proof (cases "map_of d k")
  case None
  then show ?thesis using assms by (simp add: dict_get_def)
next
  case (Some v)
  then have "(k, v) \<in> set d" by (rule map_of_SomeD)
  with assms(1) have "lo \<le> v \<and> v \<le> hi" by blast
  with Some show ?thesis by (simp add: dict_get_def)
qed

lemma calcular_impacto_range: "5 \<le> calcular_impacto a \<and> calcular_impacto a \<le> 25"
proof -
  let ?d = "[(''cpu_alta'', 15), (''memoria_alta'', 15), (''disco_alto'', 20),
             (''predicao_falha'', 25), (''backup_erro'', 10), (''servico_parado'', 25)]
            :: (string \<times> int) list"
  have "5 \<le> dict_get ?d (get_or (a_tipo a) '''') 5 \<and> dict_get ?d (get_or (a_tipo a) '''') 5 \<le> 25"
    by (rule dict_get_range) simp_all
  then show ?thesis
    unfolding calcular_impacto_def Let_def
    by (auto split: option.splits prod.splits)
qed

lemma calcular_recencia_range:
  "0 \<le> calcular_recencia a t0 t \<and> calcular_recencia a t0 t \<le> 15"
  unfolding calcular_recencia_def Let_def
  by (simp split: carimbo.splits)

lemma calcular_frequencia_range:
  "calcular_frequencia (Inr n) = Inr f \<Longrightarrow> 0 \<le> f \<and> f \<le> 20"
  unfolding calcular_frequencia_def
  by (auto split: if_splits)

lemma severidade_score_range:
  "5 \<le> dict_get [(''critica'', 40), (''alta'', 30), (''media'', 20), (''baixa'', 10), (''info'', 5)] k (20::int)
   \<and> dict_get [(''critica'', 40), (''alta'', 30), (''media'', 20), (''baixa'', 10), (''info'', 5)] k (20::int) \<le> 40"
  by (rule dict_get_range) simp_all

lemma get_base_cooldown_pos: "0 < get_base_cooldown s"
  by (simp add: get_base_cooldown_def dict_get_def)

lemmas texto_defs = lower_def lower_chr_def dict_get_def get_or_def

subsection \<open>The two base cooldown tables\<close>

text \<open>
  C10 (as stated): \<open>_get_base_cooldown\<close> of priorizacao.py and \<open>_get_cooldown_periodo\<close> of
  canais.py return the same number of seconds for every severity.  They do not: for
  \<open>info\<close> the first returns 43200 (12 hours) and the second 86400 (24 hours).
\<close>

theorem base_cooldown_tables_differ_info:
  "get_base_cooldown ''info'' = 43200 \<and> get_cooldown_periodo ''info'' = 86400
   \<and> get_base_cooldown ''info'' \<noteq> get_cooldown_periodo ''info''"
  by (simp add: get_base_cooldown_def get_cooldown_periodo_def texto_defs)

text \<open>
  C10 (amended): the two tables return the same number of seconds for every severity text
  whose lower-case form is not \<open>info\<close>, the unknown severities included (both default to
  1800).
\<close>

theorem base_cooldown_tables_agree:
  "lower s \<noteq> ''info'' \<Longrightarrow> get_base_cooldown s = get_cooldown_periodo s"
  by (simp add: get_base_cooldown_def get_cooldown_periodo_def dict_get_def)

theorem base_cooldown_tables_agree_witness:
  "lower ''Alta'' \<noteq> ''info'' \<and> get_base_cooldown ''Alta'' = 300
   \<and> get_cooldown_periodo ''Alta'' = 300"
proof -
  have h: "lower ''Alta'' \<noteq> ''info''" by (simp add: texto_defs)
  have "get_base_cooldown ''Alta'' = 300" by (simp add: get_base_cooldown_def texto_defs)
  with h base_cooldown_tables_agree [OF h] show ?thesis by simp
qed

subsection \<open>Priority bounds\<close>

text \<open>
  C9: for every alert (any severity text, any type, any combination of valor, threshold
  and timestamp) and every count that the frequency query returns, \<open>calcular_prioridade\<close>
  returns a score, and the score lies between 0 and 100.  When the query raises, the
  exception leaves \<open>calcular_prioridade\<close> and no score is returned.
\<close>

theorem calcular_prioridade_bounds:
  "(\<exists>s. calcular_prioridade a (Inr n) t0 t = Inr s \<and> 0 \<le> s \<and> s \<le> 100)
   \<and> calcular_prioridade a (Inl e) t0 t = Inl e"
proof -
  obtain f where f: "calcular_frequencia (Inr n) = Inr f"
    by (simp add: calcular_frequencia_def)
  from calcular_frequencia_range [OF f] have fr: "0 \<le> f" "f \<le> 20" by auto
  note i = calcular_impacto_range [of a]
  note r = calcular_recencia_range [of a t0 t]
  note s = severidade_score_range [of "lower (get_or (a_severidade a) ''media'')"]
  have "calcular_prioridade a (Inl e) t0 t = Inl e"
    by (simp add: calcular_prioridade_def calcular_frequencia_def)
  moreover have "\<exists>s. calcular_prioridade a (Inr n) t0 t = Inr s \<and> 0 \<le> s \<and> s \<le> 100"
    using f fr i r s unfolding calcular_prioridade_def Let_def by simp
  ultimately show ?thesis by blast
qed

theorem calcular_prioridade_bounds_witness:
  "calcular_prioridade ((alerta_cpu ''critica'')\<lparr>a_valor := Some 99, a_threshold := Some 60\<rparr>)
     (Inr 60) 0 0 = Inr 100
   \<and> calcular_prioridade alerta_vazio (Inr 0) 0 7200000000 = Inr 25"
proof -
  have "calcular_prioridade ((alerta_cpu ''critica'')\<lparr>a_valor := Some 99, a_threshold := Some 60\<rparr>)
     (Inr 60) 0 0 = Inr 100"
    by (simp add: calcular_prioridade_def calcular_frequencia_def calcular_impacto_def
        calcular_recencia_def total_seconds_def alerta_cpu_def alerta_vazio_def texto_defs Let_def)
  moreover have "calcular_prioridade alerta_vazio (Inr 0) 0 7200000000 = Inr 25"
    by (simp add: calcular_prioridade_def calcular_frequencia_def calcular_impacto_def
        calcular_recencia_def total_seconds_def alerta_vazio_def texto_defs Let_def)
  ultimately show ?thesis
    using calcular_prioridade_bounds [of alerta_vazio 0 0 7200000000] by simp
qed

subsection \<open>The adaptive cooldown window\<close>

lemma registrar_envio_adaptive:
  "adaptive_cooldowns (registrar_envio g a s t) tp =
     (if tp = get_or (a_tipo a) ''desconhecido''
      then Some (if \<not> s then cooldown_atual g tp (get_or (a_severidade a) ''media'') * 1.5
                 else max (real_of_int (get_base_cooldown (get_or (a_severidade a) ''media'')))
                          (cooldown_atual g tp (get_or (a_severidade a) ''media'') * 0.9))
      else adaptive_cooldowns g tp)"
  by (simp add: registrar_envio_def cooldown_atual_def Let_def)

lemma registrar_envios_falhas:
  assumes "\<forall>(a, s, t) \<in> set cs. get_or (a_tipo a) ''desconhecido'' = tp
             \<and> get_or (a_severidade a) ''media'' = sev \<and> \<not> s"
  shows "cooldown_atual (registrar_envios g cs) tp sev = cooldown_atual g tp sev * 1.5 ^ length cs"
  using assms
proof (induction cs arbitrary: g)
  case Nil
  then show ?case by simp
next
  case (Cons c cs)
  obtain a s t where c: "c = (a, s, t)" by (cases c)
  from Cons.prems c have h: "get_or (a_tipo a) ''desconhecido'' = tp"
    "get_or (a_severidade a) ''media'' = sev" "\<not> s" by auto
  have step: "cooldown_atual (registrar_envio g a s t) tp sev = cooldown_atual g tp sev * 1.5"
    using h by (simp add: cooldown_atual_def registrar_envio_def Let_def split: option.splits)
  from Cons.prems have "\<forall>(a, s, t) \<in> set cs. get_or (a_tipo a) ''desconhecido'' = tp
             \<and> get_or (a_severidade a) ''media'' = sev \<and> \<not> s" by auto
  from Cons.IH [OF this, of "registrar_envio g a s t"] step c
  show ?case by simp
qed

text \<open>
  C5: take an alert type \<open>tp\<close> and a severity \<open>sev\<close>, and a state in which the window of
  the type is the base window of the severity (stored, or not stored yet).  After N
  consecutive calls of \<open>registrar_envio\<close> for that type and severity with
  \<open>sucesso = False\<close> the window is base * 1.5^N, and one more call with \<open>sucesso = True\<close>
  stores the larger of the base window and 0.9 times that window.
\<close>

theorem registrar_envio_adaptive_widening:
  assumes "\<forall>(a, s, t) \<in> set cs. get_or (a_tipo a) ''desconhecido'' = tp
             \<and> get_or (a_severidade a) ''media'' = sev \<and> \<not> s"
    and "get_or (a_tipo a') ''desconhecido'' = tp"
    and "get_or (a_severidade a') ''media'' = sev"
    and "adaptive_cooldowns g tp = None
         \<or> adaptive_cooldowns g tp = Some (real_of_int (get_base_cooldown sev))"
  shows "cooldown_atual (registrar_envios g cs) tp sev
           = real_of_int (get_base_cooldown sev) * 1.5 ^ length cs
       \<and> adaptive_cooldowns (registrar_envio (registrar_envios g cs) a' True t') tp
           = Some (max (real_of_int (get_base_cooldown sev))
                       (real_of_int (get_base_cooldown sev) * 1.5 ^ length cs * 0.9))"
proof -
  from assms(4) have "cooldown_atual g tp sev = real_of_int (get_base_cooldown sev)"
    by (auto simp: cooldown_atual_def)
  with registrar_envios_falhas [OF assms(1), of g]
  have w: "cooldown_atual (registrar_envios g cs) tp sev
           = real_of_int (get_base_cooldown sev) * 1.5 ^ length cs" by simp
  then show ?thesis using assms(2,3) by (simp add: registrar_envio_adaptive)
qed

theorem registrar_envio_adaptive_widening_witness:
  "cooldown_atual (registrar_envios cooldown_vazio
       [(alerta_cpu ''alta'', False, 0), (alerta_cpu ''alta'', False, 400000000)])
     ''cpu_alta'' ''alta'' = 675
   \<and> adaptive_cooldowns (registrar_envio (registrar_envios cooldown_vazio
       [(alerta_cpu ''alta'', False, 0), (alerta_cpu ''alta'', False, 400000000)])
       (alerta_cpu ''alta'') True 1200000000) ''cpu_alta'' = Some 607.5"
proof -
  let ?cs = "[(alerta_cpu ''alta'', False, 0), (alerta_cpu ''alta'', False, 400000000)]"
  have h1: "\<forall>(a, s, t) \<in> set ?cs. get_or (a_tipo a) ''desconhecido'' = ''cpu_alta''
             \<and> get_or (a_severidade a) ''media'' = ''alta'' \<and> \<not> s"
    by (simp add: alerta_cpu_def alerta_vazio_def get_or_def)
  have h2: "get_or (a_tipo (alerta_cpu ''alta'')) ''desconhecido'' = ''cpu_alta''"
    by (simp add: alerta_cpu_def alerta_vazio_def get_or_def)
  have h3: "get_or (a_severidade (alerta_cpu ''alta'')) ''media'' = ''alta''"
    by (simp add: alerta_cpu_def alerta_vazio_def get_or_def)
  have h4: "adaptive_cooldowns cooldown_vazio ''cpu_alta'' = None
         \<or> adaptive_cooldowns cooldown_vazio ''cpu_alta''
             = Some (real_of_int (get_base_cooldown ''alta''))"
    by (simp add: cooldown_vazio_def)
  have b: "get_base_cooldown ''alta'' = 300"
    by (simp add: get_base_cooldown_def texto_defs)
  show ?thesis
    using registrar_envio_adaptive_widening [OF h1 h2 h3 h4, of 1200000000] b by simp
qed

text \<open>
  C6: take an alert type \<open>tp\<close> and a severity \<open>sev\<close>.  Over every sequence of calls of
  \<open>registrar_envio\<close> in which the alerts of type \<open>tp\<close> carry the severity \<open>sev\<close> (alerts
  of other types may come in between, with any severity), a stored window of the type
  that is at least the base window of \<open>sev\<close> stays so; a window stored by the first call
  for the type is so from the start.
\<close>

theorem registrar_envios_window_invariant:
  assumes "\<forall>(a, s, t) \<in> set cs. get_or (a_tipo a) ''desconhecido'' = tp
             \<longrightarrow> get_or (a_severidade a) ''media'' = sev"
    and "\<forall>w. adaptive_cooldowns g tp = Some w \<longrightarrow> real_of_int (get_base_cooldown sev) \<le> w"
  shows "\<forall>w. adaptive_cooldowns (registrar_envios g cs) tp = Some w
             \<longrightarrow> real_of_int (get_base_cooldown sev) \<le> w"
  using assms
proof (induction cs arbitrary: g)
  case Nil
  then show ?case by simp
next
  case (Cons c cs)
  obtain a s t where c: "c = (a, s, t)" by (cases c)
  have b: "0 < real_of_int (get_base_cooldown sev)"
    using get_base_cooldown_pos [of sev] by simp
  have inv: "\<forall>w. adaptive_cooldowns (registrar_envio g a s t) tp = Some w
               \<longrightarrow> real_of_int (get_base_cooldown sev) \<le> w"
  proof (cases "tp = get_or (a_tipo a) ''desconhecido''")
    case False
    then show ?thesis using Cons.prems(2) by (simp add: registrar_envio_adaptive)
  next
    case True
    with Cons.prems(1) c have sv: "get_or (a_severidade a) ''media'' = sev" by auto
    have "real_of_int (get_base_cooldown sev) \<le> cooldown_atual g tp sev"
      using Cons.prems(2) by (auto simp: cooldown_atual_def split: option.splits)
    with b have "real_of_int (get_base_cooldown sev) \<le> cooldown_atual g tp sev * 1.5" by simp
    then show ?thesis using True sv by (simp add: registrar_envio_adaptive)
  qed
  from Cons.prems(1) have "\<forall>(a, s, t) \<in> set cs. get_or (a_tipo a) ''desconhecido'' = tp
             \<longrightarrow> get_or (a_severidade a) ''media'' = sev" by auto
  from Cons.IH [OF this inv] c show ?case by simp
qed

theorem registrar_envios_window_invariant_witness:
  "adaptive_cooldowns (registrar_envios cooldown_vazio
       [(alerta_cpu ''alta'', False, 0), (alerta_vazio, True, 1), (alerta_cpu ''alta'', True, 2),
        (alerta_cpu ''alta'', True, 3), (alerta_cpu ''alta'', True, 4)]) ''cpu_alta'' = Some 328.05
   \<and> real_of_int (get_base_cooldown ''alta'') \<le> 328.05"
proof -
  let ?cs = "[(alerta_cpu ''alta'', False, 0), (alerta_vazio, True, 1), (alerta_cpu ''alta'', True, 2),
        (alerta_cpu ''alta'', True, 3), (alerta_cpu ''alta'', True, 4)]"
  have h1: "\<forall>(a, s, t) \<in> set ?cs. get_or (a_tipo a) ''desconhecido'' = ''cpu_alta''
             \<longrightarrow> get_or (a_severidade a) ''media'' = ''alta''"
    by (simp add: alerta_cpu_def alerta_vazio_def get_or_def)
  have h2: "\<forall>w. adaptive_cooldowns cooldown_vazio ''cpu_alta'' = Some w
              \<longrightarrow> real_of_int (get_base_cooldown ''alta'') \<le> w"
    by (simp add: cooldown_vazio_def)
  have b: "get_base_cooldown ''alta'' = 300" "get_base_cooldown ''media'' = 1800"
    by (simp_all add: get_base_cooldown_def texto_defs)
  have e: "adaptive_cooldowns (registrar_envios cooldown_vazio ?cs) ''cpu_alta'' = Some 328.05"
    by (simp add: registrar_envio_adaptive cooldown_atual_def cooldown_vazio_def alerta_cpu_def
        alerta_vazio_def get_or_def b)
  from registrar_envios_window_invariant [OF h1 h2] e
  have "real_of_int (get_base_cooldown ''alta'') \<le> 328.05" by blast
  with e show ?thesis by simp
qed

subsection \<open>Suppression of an alert in cooldown\<close>




subsection \<open>The untrained predictor\<close>

text \<open>
  C7: when the failure-prediction model is untrained, \<open>prever_falha\<close> returns, for every
  snapshot, the probability 0.0 with the marker \<open>Modelo nao treinado\<close> (it has no way to
  raise: its result type carries no exception), and with a PREDICTION_THRESHOLD that is
  not negative the alerts of the monitoring iteration are exactly those of the threshold
  rules, none of which has the type \<open>predicao_falha\<close>.
\<close>

theorem prever_falha_untrained:
  assumes "\<not> pf_is_trained pf" and "0 \<le> cfg_prediction_threshold cfg"
  shows "prever_falha pf metrics inferencia =
           \<lparr>probabilidade = 0, nivel_risco = ''desconhecido'', mensagem = msg_nao_treinado\<rparr>
       \<and> monitoring_loop_alertas cfg pf (Inr metrics) inferencia agora
           = Inr (verificar_alertas cfg metrics)
       \<and> (\<forall>a \<in> set (verificar_alertas cfg metrics). a_tipo a \<noteq> Some ''predicao_falha'')"
  using assms
  by (auto simp: prever_falha_def monitoring_loop_alertas_def verificar_alertas_def
      novo_alerta_def Let_def)

theorem prever_falha_untrained_witness:
  "\<not> pf_is_trained \<lparr>pf_is_trained = False\<rparr> \<and> 0 \<le> cfg_prediction_threshold config_padrao
   \<and> probabilidade (prever_falha \<lparr>pf_is_trained = False\<rparr> snapshot_ex (Inr 0.99)) = 0
   \<and> monitoring_loop_alertas config_padrao \<lparr>pf_is_trained = False\<rparr> (Inr snapshot_ex) (Inr 0.99) 0
       = Inr [(novo_alerta ''cpu_alta'' ''alta'')\<lparr>a_valor := Some 96, a_threshold := Some 80\<rparr>]"
proof -
  have h1: "\<not> pf_is_trained \<lparr>pf_is_trained = False\<rparr>" by simp
  have h2: "0 \<le> cfg_prediction_threshold config_padrao" by (simp add: config_padrao_def)
  have v: "verificar_alertas config_padrao snapshot_ex
      = [(novo_alerta ''cpu_alta'' ''alta'')\<lparr>a_valor := Some 96, a_threshold := Some 80\<rparr>]"
    by (simp add: verificar_alertas_def config_padrao_def snapshot_ex_def get_or_def Let_def)
  show ?thesis
    using prever_falha_untrained [OF h1 h2, of snapshot_ex "Inr 0.99" 0] h1 h2 v by simp
qed

subsection \<open>The backup type of the suggested strategy\<close>

lemma escolher_tipo_velho:
  "7 < d \<Longrightarrow> escolher_tipo ob env d = Inr t \<Longrightarrow> t = ''completo''"
  by (auto simp: escolher_tipo_def Let_def split: if_splits sum.splits)

text \<open>
  C2 (as stated): with no successful record in the table, \<open>sugerir_estrategia\<close> returns the
  type \<open>completo\<close> for every hour, weekday and trained state.  It does not: without a
  successful record the days since the last backup default to 1, and the untrained rule
  on a Tuesday answers \<open>incremental\<close>.
\<close>

theorem sugerir_estrategia_first_backup_incremental:
  "filter b_sucesso [] = []
   \<and> sugerir_estrategia \<lparr>ob_is_trained = False\<rparr> ambiente_estrategia_ex [] =
     Inr \<lparr>e_tipo = Some ''incremental'', e_compressao = Some True, e_prioridade = Some ''media'',
          e_tamanho_estimado_mb = Some 22, e_horario_sugerido = Some ''02:00'',
          e_dias_desde_ultimo_backup = Some 1, e_confianca = Some 0.6\<rparr>"
  by (simp add: sugerir_estrategia_def escolher_tipo_def estimar_tamanho_backup_def
      sugerir_horario_ideal_def get_ultimo_backup_sucesso_def ambiente_estrategia_ex_def
      py_round_def Let_def)

text \<open>
  C2 (amended): whenever the last successful backup is more than 7 days old, the strategy
  that \<open>sugerir_estrategia\<close> returns has the type \<open>completo\<close>, for every hour, weekday and
  trained state.  When no successful record exists, the days count is 1 and the type is
  the one of the ordinary rule: untrained, \<open>completo\<close> on a Monday and \<open>incremental\<close>
  otherwise; trained, the type of the cluster (\<open>completo\<close> for cluster 1, \<open>diferencial\<close>
  for cluster 2, \<open>incremental\<close> otherwise).  A strategy is returned whenever the model is
  untrained or both model calls return.
\<close>

theorem sugerir_estrategia_tipo:
  "(\<forall>r est. get_ultimo_backup_sucesso tabela = Some r
        \<and> 7 < total_seconds (ae_agora env - b_timestamp r) / 86400
        \<and> sugerir_estrategia ob env tabela = Inr est
      \<longrightarrow> e_tipo est = Some ''completo'')
   \<and> (\<forall>est. filter b_sucesso tabela = [] \<and> sugerir_estrategia ob env tabela = Inr est
      \<longrightarrow> e_tipo est = Some (if ob_is_trained ob
                             then (if ae_cluster env = Inr 1 then ''completo''
                                   else if ae_cluster env = Inr 2 then ''diferencial''
                                   else ''incremental'')
                             else (if ae_dia_semana env = 0 then ''completo'' else ''incremental'')))
   \<and> (\<not> ob_is_trained ob \<or> (\<exists>c t. ae_cluster env = Inr c \<and> ae_tamanho env = Inr t)
      \<longrightarrow> (\<exists>est. sugerir_estrategia ob env tabela = Inr est))"
proof (intro conjI allI impI)
  fix r est
  assume h: "get_ultimo_backup_sucesso tabela = Some r
        \<and> 7 < total_seconds (ae_agora env - b_timestamp r) / 86400
        \<and> sugerir_estrategia ob env tabela = Inr est"
  then obtain t where
    "escolher_tipo ob env (total_seconds (ae_agora env - b_timestamp r) / 86400) = Inr t"
    and "e_tipo est = Some t"
    by (auto simp: sugerir_estrategia_def Let_def split: sum.splits)
  with h escolher_tipo_velho show "e_tipo est = Some ''completo''" by blast
next
  fix est
  assume h: "filter b_sucesso tabela = [] \<and> sugerir_estrategia ob env tabela = Inr est"
  then have u: "get_ultimo_backup_sucesso tabela = None"
    by (simp add: get_ultimo_backup_sucesso_def)
  from h show "e_tipo est = Some (if ob_is_trained ob
                             then (if ae_cluster env = Inr 1 then ''completo''
                                   else if ae_cluster env = Inr 2 then ''diferencial''
                                   else ''incremental'')
                             else (if ae_dia_semana env = 0 then ''completo'' else ''incremental''))"
    unfolding sugerir_estrategia_def u Let_def escolher_tipo_def
    by (auto simp: dict_get_def split: sum.splits if_splits)
next
  assume "\<not> ob_is_trained ob \<or> (\<exists>c t. ae_cluster env = Inr c \<and> ae_tamanho env = Inr t)"
  then show "\<exists>est. sugerir_estrategia ob env tabela = Inr est"
    by (auto simp: sugerir_estrategia_def escolher_tipo_def estimar_tamanho_backup_def Let_def
        split: sum.splits option.splits)
qed

theorem sugerir_estrategia_tipo_witness:
  "get_ultimo_backup_sucesso [linha_antiga_falha, linha_antiga] = Some linha_antiga
   \<and> 7 < total_seconds (ae_agora ambiente_estrategia_ex - b_timestamp linha_antiga) / 86400
   \<and> sugerir_estrategia \<lparr>ob_is_trained = False\<rparr> ambiente_estrategia_ex
        [linha_antiga_falha, linha_antiga] =
      Inr \<lparr>e_tipo = Some ''completo'', e_compressao = Some True, e_prioridade = Some ''alta'',
           e_tamanho_estimado_mb = Some 180, e_horario_sugerido = Some ''02:00'',
           e_dias_desde_ultimo_backup = Some 8, e_confianca = Some 0.6\<rparr>"
proof -
  let ?est = "\<lparr>e_tipo = Some ''completo'', e_compressao = Some True, e_prioridade = Some ''alta'',
           e_tamanho_estimado_mb = Some 180, e_horario_sugerido = Some ''02:00'',
           e_dias_desde_ultimo_backup = Some 8, e_confianca = Some (0.6::real)\<rparr>"
  have u: "get_ultimo_backup_sucesso [linha_antiga_falha, linha_antiga] = Some linha_antiga"
    by (simp add: get_ultimo_backup_sucesso_def linha_antiga_def linha_antiga_falha_def)
  have d: "total_seconds (ae_agora ambiente_estrategia_ex - b_timestamp linha_antiga) / 86400 = 8"
    by (simp add: total_seconds_def ambiente_estrategia_ex_def linha_antiga_def)
  have e: "escolher_tipo \<lparr>ob_is_trained = False\<rparr> ambiente_estrategia_ex 8 = Inr ''completo''"
    by (simp add: escolher_tipo_def)
  have t: "estimar_tamanho_backup \<lparr>ob_is_trained = False\<rparr> ambiente_estrategia_ex ''completo'' 8
      = Inr 180"
    by (simp add: estimar_tamanho_backup_def)
  have h: "sugerir_horario_ideal ambiente_estrategia_ex = ''02:00''"
    by (simp add: sugerir_horario_ideal_def ambiente_estrategia_ex_def)
  have s: "sugerir_estrategia \<lparr>ob_is_trained = False\<rparr> ambiente_estrategia_ex
        [linha_antiga_falha, linha_antiga] = Inr ?est"
    apply (simp only: sugerir_estrategia_def u Let_def option.case d e t h sum.case)
    apply (simp add: py_round_def Let_def)
    done
  from sugerir_estrategia_tipo
    [of "[linha_antiga_falha, linha_antiga]" ambiente_estrategia_ex "\<lparr>ob_is_trained = False\<rparr>"]
    u d s
  have "e_tipo ?est = Some ''completo''" by simp
  with u d s show ?thesis by simp
qed

subsection \<open>The retention sweep\<close>

lemma remover_artefatos_ok:
  assumes "\<forall>p \<in> set ps. \<exists>q. p = Some q \<and> \<not> fs_is_dir fs q \<and> ab_falha_io env q = None"
  shows "remover_artefatos env ps fs =
           (None, fs\<lparr>arquivos := filter (\<lambda>f. Some (fst f) \<notin> set ps) (arquivos fs)\<rparr>)"
  using assms
proof (induction ps arbitrary: fs)
  case Nil
  then show ?case by simp
next
  case (Cons p ps)
  from Cons.prems obtain q where q: "p = Some q" "\<not> fs_is_dir fs q" "ab_falha_io env q = None"
    by auto
  have rest: "\<forall>p \<in> set ps. \<exists>q'. p = Some q' \<and> \<not> fs_is_dir (fs_unlink fs q) q'
                \<and> ab_falha_io env q' = None"
    using Cons.prems by (auto simp: fs_is_dir_def fs_unlink_def)
  have rest0: "\<forall>p \<in> set ps. \<exists>q'. p = Some q' \<and> \<not> fs_is_dir fs q' \<and> ab_falha_io env q' = None"
    using Cons.prems by auto
  show ?case
  proof (cases "fs_exists fs q")
    case True
    with q have f: "fs_is_file fs q" by (simp add: fs_exists_def)
    have "filter (\<lambda>f. Some (fst f) \<notin> set ps) (filter (\<lambda>f. fst f \<noteq> q) (arquivos fs))
          = filter (\<lambda>f. Some (fst f) \<notin> set (Some q # ps)) (arquivos fs)"
      by (induction "arquivos fs") auto
    then show ?thesis using True f q Cons.IH [OF rest]
      by (simp add: fs_unlink_def)
  next
    case False
    then have "q \<notin> fst ` set (arquivos fs)"
      by (simp add: fs_exists_def fs_is_file_def map_of_eq_None_iff)
    then have "filter (\<lambda>f. Some (fst f) \<notin> set ps) (arquivos fs)
          = filter (\<lambda>f. Some (fst f) \<notin> set (Some q # ps)) (arquivos fs)"
      by (intro filter_cong) auto
    then show ?thesis using False q Cons.IH [OF rest0] by simp
  qed
qed

lemmas linha_defs = linha_antiga_def linha_antiga_falha_def linha_recente_def

text \<open>
  C1 (as stated): one run of \<open>_limpar_backups_antigos\<close> removes exactly the records that are
  older than the cutoff and successful, and leaves every unsuccessful record untouched.
  The final \<open>DELETE\<close> has no condition on \<open>sucesso\<close>: with a retention of 30 days and the
  clock at day 45, the failed record of day 0 is removed from the table as well.
\<close>

theorem limpar_backups_antigos_removes_failed_record:
  "linha_antiga_falha \<in> set (eb_backups estado_retencao) \<and> \<not> b_sucesso linha_antiga_falha
   \<and> eb_backups (snd (limpar_backups_antigos config_padrao ambiente_backup_ex
        (45 * 86400000000) estado_retencao)) = [linha_recente]"
proof -
  have r: "remover_artefatos ambiente_backup_ex
      [Some ''/data/backups/backup_20240101_020000.zip''] (eb_fs estado_retencao)
    = (None, \<lparr>arquivos = [(''/data/backups/backup_20240210_020000.zip'', 1048576,
                            40 * 86400000000)],
              diretorios = [''/data/backups'']\<rparr>)"
    by (simp add: estado_retencao_def ambiente_backup_ex_def fs_exists_def fs_is_file_def
        fs_is_dir_def fs_unlink_def)
  have b: "eb_backups estado_retencao = [linha_antiga, linha_antiga_falha, linha_recente]"
    by (simp add: estado_retencao_def)
  have k: "cfg_backup_retention_days config_padrao = 30"
    by (simp add: config_padrao_def)
  have ps: "map b_path (filter (\<lambda>r. b_timestamp r < 45 * 86400000000 - 30 * 86400000000
                                     \<and> b_sucesso r)
                          [linha_antiga, linha_antiga_falha, linha_recente])
      = [Some ''/data/backups/backup_20240101_020000.zip'']"
    by (simp add: linha_defs)
  have fl: "filter (\<lambda>r. \<not> b_timestamp r < 45 * 86400000000 - 30 * 86400000000)
              [linha_antiga, linha_antiga_falha, linha_recente] = [linha_recente]"
    by (simp add: linha_defs)
  have "limpar_backups_antigos config_padrao ambiente_backup_ex (45 * 86400000000) estado_retencao
      = (None, \<lparr>eb_fs = \<lparr>arquivos = [(''/data/backups/backup_20240210_020000.zip'', 1048576,
                            40 * 86400000000)],
              diretorios = [''/data/backups'']\<rparr>, eb_backups = [linha_recente]\<rparr>)"
    unfolding limpar_backups_antigos_def Let_def b k ps r fl by simp
  then show ?thesis by (simp add: b linha_defs)
qed

text \<open>
  C1 (amended): one run of the retention sweep removes from the table every record whose
  timestamp is older than now minus BACKUP_RETENTION_DAYS, successful or not, unlinks the
  artifact files of the successful ones among them, and leaves every record that is not
  older than the cutoff, every other file and every directory untouched.  This is when
  each artifact path of an old successful record is a path that is no directory and that
  the operating system lets unlink.
\<close>

theorem limpar_backups_antigos_sweep:
  assumes "\<forall>r \<in> set (eb_backups st).
             b_timestamp r < agora - cfg_backup_retention_days cfg * 86400000000 \<and> b_sucesso r
             \<longrightarrow> (\<exists>p. b_path r = Some p \<and> \<not> fs_is_dir (eb_fs st) p \<and> ab_falha_io env p = None)"
  shows "limpar_backups_antigos cfg env agora st =
           (None,
            \<lparr>eb_fs = (eb_fs st)\<lparr>arquivos :=
                 filter (\<lambda>f. \<forall>r \<in> set (eb_backups st).
                               b_timestamp r < agora - cfg_backup_retention_days cfg * 86400000000
                               \<and> b_sucesso r \<longrightarrow> b_path r \<noteq> Some (fst f))
                        (arquivos (eb_fs st))\<rparr>,
             eb_backups = filter (\<lambda>r. agora - cfg_backup_retention_days cfg * 86400000000
                                        \<le> b_timestamp r)
                                 (eb_backups st)\<rparr>)"
proof -
  let ?cutoff = "agora - cfg_backup_retention_days cfg * 86400000000"
  let ?ps = "map b_path (filter (\<lambda>r. b_timestamp r < ?cutoff \<and> b_sucesso r) (eb_backups st))"
  have h: "\<forall>p \<in> set ?ps. \<exists>q. p = Some q \<and> \<not> fs_is_dir (eb_fs st) q \<and> ab_falha_io env q = None"
    using assms by auto
  have f: "filter (\<lambda>f. Some (fst f) \<notin> set ?ps) (arquivos (eb_fs st))
         = filter (\<lambda>f. \<forall>r \<in> set (eb_backups st).
                               b_timestamp r < ?cutoff \<and> b_sucesso r \<longrightarrow> b_path r \<noteq> Some (fst f))
                        (arquivos (eb_fs st))"
    by (intro filter_cong) (auto simp: image_iff)
  have g: "filter (\<lambda>r. \<not> b_timestamp r < ?cutoff) (eb_backups st)
         = filter (\<lambda>r. ?cutoff \<le> b_timestamp r) (eb_backups st)"
    by (intro filter_cong) auto
  show ?thesis
    unfolding limpar_backups_antigos_def Let_def remover_artefatos_ok [OF h] f g by simp
qed

theorem limpar_backups_antigos_sweep_witness:
  "limpar_backups_antigos config_padrao ambiente_backup_ex (45 * 86400000000) estado_retencao =
     (None,
      \<lparr>eb_fs = \<lparr>arquivos = [(''/data/backups/backup_20240210_020000.zip'', 1048576,
                             40 * 86400000000)],
                diretorios = [''/data/backups'']\<rparr>,
       eb_backups = [linha_recente]\<rparr>)"
proof -
  have h: "\<forall>r \<in> set (eb_backups estado_retencao).
             b_timestamp r < 45 * 86400000000 - cfg_backup_retention_days config_padrao * 86400000000
             \<and> b_sucesso r
             \<longrightarrow> (\<exists>p. b_path r = Some p \<and> \<not> fs_is_dir (eb_fs estado_retencao) p
                      \<and> ab_falha_io ambiente_backup_ex p = None)"
    by (simp add: estado_retencao_def linha_defs config_padrao_def ambiente_backup_ex_def
        fs_is_dir_def)
  show ?thesis
    unfolding limpar_backups_antigos_sweep [OF h]
    by (simp add: estado_retencao_def linha_defs config_padrao_def)
qed

subsection \<open>Space safety\<close>

text \<open>
  C3: for every strategy and state (every target set and estimated size), if the free
  space of the backup volume is less than 2 times the estimated size, \<open>executar_backup\<close>
  raises the BackupError of the space check, the file system is left as it was (no file
  of the backup is written), and the only write is the failure row of the table.  So a
  call that changes the file system had free space of at least 2 times the estimate.
\<close>

theorem executar_backup_space_safety:
  "(real (ab_espaco_livre env) / (1024 * 1024)
      < 2 * calcular_tamanho (determinar_targets est (eb_backups st) (eb_fs st)) (eb_fs st)
    \<longrightarrow> fst (executar_backup cfg env est st)
          = Inl (Exn ''BackupError'' (''Falha no backup: '' @ msg_espaco))
        \<and> eb_fs (snd (executar_backup cfg env est st)) = eb_fs st
        \<and> eb_backups (snd (executar_backup cfg env est st))
          = registrar_backup (eb_backups st) (linha_falha env (Exn ''BackupError'' msg_espaco)))
   \<and> (eb_fs (snd (executar_backup cfg env est st)) \<noteq> eb_fs st
    \<longrightarrow> 2 * calcular_tamanho (determinar_targets est (eb_backups st) (eb_fs st)) (eb_fs st)
          \<le> real (ab_espaco_livre env) / (1024 * 1024))"
proof -
  have a: "real (ab_espaco_livre env) / (1024 * 1024)
      < 2 * calcular_tamanho (determinar_targets est (eb_backups st) (eb_fs st)) (eb_fs st)
    \<Longrightarrow> executar_backup cfg env est st =
           (Inl (Exn ''BackupError'' (''Falha no backup: '' @ msg_espaco)),
            st\<lparr>eb_backups := registrar_backup (eb_backups st)
                                (linha_falha env (Exn ''BackupError'' msg_espaco))\<rparr>)"
    by (simp add: executar_backup_def executar_backup_try_def verificar_espaco_def Let_def)
  show ?thesis
  proof (cases "real (ab_espaco_livre env) / (1024 * 1024)
      < 2 * calcular_tamanho (determinar_targets est (eb_backups st) (eb_fs st)) (eb_fs st)")
    case True
    with a [OF True] show ?thesis by simp
  next
    case False
    then show ?thesis by simp
  qed
qed

lemma alvos_primeiro_incremental:
  "determinar_targets estrategia_incremental [] fs = [''/etc'', ''/home'']"
  by (simp add: determinar_targets_def estrategia_incremental_def get_ultimo_backup_sucesso_def
      get_or_def)

theorem executar_backup_space_safety_witness:
  "real (ab_espaco_livre ambiente_backup_ex) / (1024 * 1024)
      < 2 * calcular_tamanho
            (determinar_targets estrategia_incremental (eb_backups estado_etc) (eb_fs estado_etc))
            (eb_fs estado_etc)
   \<and> fst (executar_backup config_padrao ambiente_backup_ex estrategia_incremental estado_etc)
       = Inl (Exn ''BackupError'' (''Falha no backup: '' @ msg_espaco))
   \<and> eb_fs (snd (executar_backup config_padrao ambiente_backup_ex estrategia_incremental estado_etc))
       = eb_fs estado_etc"
proof -
  have t: "calcular_tamanho
            (determinar_targets estrategia_incremental (eb_backups estado_etc) (eb_fs estado_etc))
            (eb_fs estado_etc) = 1"
    by (simp add: estado_etc_def alvos_primeiro_incremental calcular_tamanho_def bytes_de_def
        fs_exists_def fs_is_file_def fs_is_dir_def rglob_files_def abaixo_de_def)
  have h: "real (ab_espaco_livre ambiente_backup_ex) / (1024 * 1024)
      < 2 * calcular_tamanho
            (determinar_targets estrategia_incremental (eb_backups estado_etc) (eb_fs estado_etc))
            (eb_fs estado_etc)"
    unfolding t by (simp add: ambiente_backup_ex_def)
  show ?thesis
    using executar_backup_space_safety
      [of ambiente_backup_ex estrategia_incremental estado_etc config_padrao] h
    by simp
qed

subsection \<open>One record for each backup attempt\<close>

lemma registrar_backup_um:
  "filter (\<lambda>r. b_id r = b_id l) (registrar_backup t l) = [l]"
  by (simp add: registrar_backup_def)

lemma executar_backup_try_sucesso:
  assumes "executar_backup_try cfg env est st = (Inr s, st')"
  shows "\<exists>targets resultado duracao. eb_backups st' =
           filter (\<lambda>r. \<not> b_timestamp r
                          < ab_t_limpeza env - cfg_backup_retention_days cfg * 86400000000)
             (registrar_backup (eb_backups st) (linha_sucesso env est targets resultado duracao))"
  using assms
  unfolding executar_backup_try_def limpar_backups_antigos_def Let_def
  by (auto split: if_splits prod.splits sum.splits option.splits; blast)

lemma primeiro_backup_sync:
  "executar_backup_sync ambiente_backup_ex ''/data/backups/backup_20240215_020000''
     [''/etc'', ''/home''] \<lparr>arquivos = [], diretorios = [''/data/backups'']\<rparr>
   = (Inr \<lparr>r_caminho_final = ''/data/backups/backup_20240215_020000'', r_tamanho_mb = 0,
           r_arquivos = 0, r_taxa_compressao = None\<rparr>,
      \<lparr>arquivos = [(''/data/backups/backup_20240215_020000/metadata.json'', 10, 2000000)],
       diretorios = [''/data/backups/backup_20240215_020000'', ''/data/backups'']\<rparr>)"
  by (simp add: executar_backup_sync_def ambiente_backup_ex_def fs_exists_def fs_is_file_def
      fs_is_dir_def fs_mkdir_def fs_write_def)

lemma primeiro_backup_zip:
  "compactar_backup ambiente_backup_ex ''/data/backups'' ''/data/backups/backup_20240215_020000''
     \<lparr>r_caminho_final = ''/data/backups/backup_20240215_020000'', r_tamanho_mb = 0,
           r_arquivos = 0, r_taxa_compressao = None\<rparr>
      \<lparr>arquivos = [(''/data/backups/backup_20240215_020000/metadata.json'', 10, 2000000)],
       diretorios = [''/data/backups/backup_20240215_020000'', ''/data/backups'']\<rparr>
   = (\<lparr>r_caminho_final = ''/data/backups/backup_20240215_020000'', r_tamanho_mb = 0,
           r_arquivos = 0, r_taxa_compressao = None\<rparr>, fs_depois)"
  by (simp add: compactar_backup_def ambiente_backup_ex_def basename_def fs_write_def fs_rmtree_def
      abaixo_de_def fs_depois_def Let_def)

lemma primeiro_backup_linha:
  "linha_sucesso ambiente_backup_ex estrategia_incremental [''/etc'', ''/home'']
     \<lparr>r_caminho_final = ''/data/backups/backup_20240215_020000'', r_tamanho_mb = 0,
      r_arquivos = 0, r_taxa_compressao = None\<rparr> 2 = linha_registrada"
  by (simp add: linha_sucesso_def linha_registrada_def ambiente_backup_ex_def
      estrategia_incremental_def get_or_def)

lemma primeiro_backup_limpar:
  "limpar_backups_antigos cfg ambiente_backup_ex 2000006
     \<lparr>eb_fs = fs_depois, eb_backups = [linha_registrada]\<rparr>
   = (None, \<lparr>eb_fs = fs_depois,
             eb_backups = (if 2000005 < 2000006 - cfg_backup_retention_days cfg * 86400000000
                           then [] else [linha_registrada])\<rparr>)"
  by (simp add: limpar_backups_antigos_def linha_registrada_def fs_depois_def fs_exists_def
      fs_is_file_def fs_is_dir_def Let_def)

lemma primeiro_backup:
  assumes "cfg_backup_dir cfg = ''/data/backups''"
  shows "executar_backup cfg ambiente_backup_ex estrategia_incremental estado_vazio
   = (Inr saida_ex,
      \<lparr>eb_fs = fs_depois,
       eb_backups = (if 2000005 < 2000006 - cfg_backup_retention_days cfg * 86400000000
                     then [] else [linha_registrada])\<rparr>)"
proof -
  have v: "verificar_espaco ambiente_backup_ex 0" by (simp add: verificar_espaco_def)
  have t: "calcular_tamanho [''/etc'', ''/home''] \<lparr>arquivos = [], diretorios = [''/data/backups'']\<rparr> = 0"
    by (simp add: calcular_tamanho_def bytes_de_def fs_exists_def fs_is_file_def fs_is_dir_def)
  have e: "eb_fs estado_vazio = \<lparr>arquivos = [], diretorios = [''/data/backups'']\<rparr>"
    "eb_backups estado_vazio = []"
    by (simp_all add: estado_vazio_def)
  have a: "ab_id ambiente_backup_ex = ''20240215_020000''"
    "total_seconds (ab_t_fim ambiente_backup_ex - ab_t_inicio ambiente_backup_ex) = 2"
    "ab_t_limpeza ambiente_backup_ex = 2000006"
    by (simp_all add: ambiente_backup_ex_def total_seconds_def)
  have c: "get_or (e_compressao estrategia_incremental) True"
    by (simp add: estrategia_incremental_def get_or_def)
  have y: "executar_backup_try cfg ambiente_backup_ex estrategia_incremental estado_vazio
   = (Inr saida_ex,
      \<lparr>eb_fs = fs_depois,
       eb_backups = (if 2000005 < 2000006 - cfg_backup_retention_days cfg * 86400000000
                     then [] else [linha_registrada])\<rparr>)"
    unfolding executar_backup_try_def Let_def e assms alvos_primeiro_incremental t
    apply (simp only: v a c append.simps primeiro_backup_sync primeiro_backup_zip
        primeiro_backup_linha not_True_eq_False if_False if_True prod.case sum.case
        registrar_backup_def filter.simps)
    apply (simp add: primeiro_backup_limpar saida_ex_def)
    done
  show ?thesis by (simp add: executar_backup_def y)
qed

text \<open>
  C4 (as stated): every call of \<open>executar_backup\<close> leaves exactly one record of the
  attempt in the table.  On the success path the retention sweep runs after the record is
  written: with BACKUP_RETENTION_DAYS = 0 the cutoff is the clock of the sweep, which is
  later than the timestamp of the record just written, so the sweep deletes it and the
  successful call leaves no record.
\<close>

theorem executar_backup_zero_retention_no_record:
  "fst (executar_backup config_retencao_zero ambiente_backup_ex
          estrategia_incremental estado_vazio) = Inr saida_ex
   \<and> s_sucesso saida_ex
   \<and> eb_backups (snd (executar_backup config_retencao_zero
          ambiente_backup_ex estrategia_incremental estado_vazio)) = []"
proof -
  have "cfg_backup_dir config_retencao_zero = ''/data/backups''"
    by (simp add: config_retencao_zero_def)
  from primeiro_backup [OF this] show ?thesis
    by (simp add: saida_ex_def config_retencao_zero_def)
qed

text \<open>
  C4 (amended): every call of \<open>executar_backup\<close> in which the record of a success is not
  older than the cutoff of the sweep that follows it (so for every BACKUP_RETENTION_DAYS
  of at least one day, when the call takes less than that) leaves exactly one row with
  the id of the attempt in the table: with \<open>sucesso\<close> true and no error when the call
  returns, with \<open>sucesso\<close> false and the message of the error when the call raises, the
  BackupError carrying that message.
\<close>

theorem executar_backup_one_record:
  assumes "ab_t_limpeza env - cfg_backup_retention_days cfg * 86400000000 \<le> ab_t_registro env"
  shows "\<exists>l. filter (\<lambda>r. b_id r = ab_id env) (eb_backups (snd (executar_backup cfg env est st))) = [l]
           \<and> (case fst (executar_backup cfg env est st) of
                Inr s \<Rightarrow> b_sucesso l \<and> b_erro l = None
              | Inl e \<Rightarrow> \<not> b_sucesso l
                         \<and> (\<exists>m. b_erro l = Some m
                                \<and> e = Exn ''BackupError'' (''Falha no backup: '' @ m)))"
proof (cases "executar_backup_try cfg env est st")
  case (Pair res st')
  show ?thesis
  proof (cases res)
    case (Inl e)
    have "filter (\<lambda>r. b_id r = ab_id env) (registrar_backup (eb_backups st') (linha_falha env e))
            = [linha_falha env e]"
      using registrar_backup_um [of "linha_falha env e" "eb_backups st'"]
      by (simp add: linha_falha_def)
    then show ?thesis using Pair Inl
      by (simp add: executar_backup_def linha_falha_def)
  next
    case (Inr s)
    with Pair executar_backup_try_sucesso [of cfg env est st s st']
    obtain targets resultado duracao where
      t0: "eb_backups st' =
             filter (\<lambda>r. \<not> b_timestamp r
                            < ab_t_limpeza env - cfg_backup_retention_days cfg * 86400000000)
               (registrar_backup (eb_backups st) (linha_sucesso env est targets resultado duracao))"
      by auto
    define l where "l = linha_sucesso env est targets resultado duracao"
    have l: "b_id l = ab_id env" "b_timestamp l = ab_t_registro env" "b_sucesso l" "b_erro l = None"
      by (simp_all add: l_def linha_sucesso_def)
    have t: "eb_backups st' =
               filter (\<lambda>r. \<not> b_timestamp r
                              < ab_t_limpeza env - cfg_backup_retention_days cfg * 86400000000)
                 (registrar_backup (eb_backups st) l)"
      using t0 by (simp add: l_def)
    have "filter (\<lambda>r. b_id r = ab_id env) (eb_backups st') = [l]"
      using l assms unfolding t registrar_backup_def by (simp add: filter_filter conj_commute)
    then show ?thesis using Pair Inr l
      by (simp add: executar_backup_def)
  qed
qed

theorem executar_backup_one_record_witness:
  "ab_t_limpeza ambiente_backup_ex - cfg_backup_retention_days config_padrao * 86400000000
     \<le> ab_t_registro ambiente_backup_ex
   \<and> fst (executar_backup config_padrao ambiente_backup_ex estrategia_incremental estado_vazio)
       = Inr saida_ex
   \<and> filter (\<lambda>r. b_id r = ab_id ambiente_backup_ex)
        (eb_backups (snd (executar_backup config_padrao ambiente_backup_ex
                            estrategia_incremental estado_vazio))) = [linha_registrada]
   \<and> b_sucesso linha_registrada \<and> b_erro linha_registrada = None"
proof -
  have h: "ab_t_limpeza ambiente_backup_ex - cfg_backup_retention_days config_padrao * 86400000000
     \<le> ab_t_registro ambiente_backup_ex"
    by (simp add: ambiente_backup_ex_def config_padrao_def)
  have d: "cfg_backup_dir config_padrao = ''/data/backups''"
    by (simp add: config_padrao_def)
  have r: "cfg_backup_retention_days config_padrao = 30"
    by (simp add: config_padrao_def)
  have e: "executar_backup config_padrao ambiente_backup_ex estrategia_incremental estado_vazio
      = (Inr saida_ex, \<lparr>eb_fs = fs_depois, eb_backups = [linha_registrada]\<rparr>)"
    by (simp add: primeiro_backup [OF d] r)
  have i: "ab_id ambiente_backup_ex = b_id linha_registrada"
    by (simp add: ambiente_backup_ex_def linha_registrada_def)
  have l: "b_sucesso linha_registrada \<and> b_erro linha_registrada = None"
    by (simp add: linha_registrada_def)
  from executar_backup_one_record [OF h, of estrategia_incremental estado_vazio]
  obtain l' where "filter (\<lambda>r. b_id r = ab_id ambiente_backup_ex)
        (eb_backups (snd (executar_backup config_padrao ambiente_backup_ex
                            estrategia_incremental estado_vazio))) = [l']"
    by blast
  then have "filter (\<lambda>r. b_id r = ab_id ambiente_backup_ex)
        (eb_backups (snd (executar_backup config_padrao ambiente_backup_ex
                            estrategia_incremental estado_vazio))) = [linha_registrada]"
    unfolding e i by simp
  with h l show ?thesis by (simp add: e)
qed

end
